theory Spec2Isabelle
  imports Main
begin

section \<open>Values, errors and panics\<close>

text \<open>
  The package \<^verbatim>\<open>qq\<close> (file \<^verbatim>\<open>qq.go\<close>) is embedded function by function. A Go
  \<^verbatim>\<open>error\<close> value is carried as its message. A run-time panic is a value of its own:
  an index beyond the length of a slice, the dereference of a nil pointer, and the explicit
  \<^verbatim>\<open>panic(err)\<close> of \<^verbatim>\<open>openLog\<close>. A function that may panic returns \<open>panic + 'a\<close>.
\<close>

type_synonym error = string

datatype panic = NilDereference | IndexOutOfRange | OpenFailed error

text \<open>
  An \<^verbatim>\<open>interface{}\<close> operand: the nil interface (what \<^verbatim>\<open>make\<close> fills a fresh slice
  with), a Go string, or a value \<open>'v\<close> handed in by the caller of \<^verbatim>\<open>Log\<close>.
\<close>

datatype 'v iface = GoNil | GoString string | Dyn 'v

section \<open>Colours\<close>

type_synonym color = string

definition bold :: color where
  "bold = [CHR 0x1B] @ ''[1m''"

definition yellow :: color where
  "yellow = [CHR 0x1B] @ ''[33m''"

definition cyan :: color where
  "cyan = [CHR 0x1B] @ ''[36m''"

definition endColor :: color where
  "endColor = [CHR 0x1B] @ ''[0m''"

definition colorize :: "string \<Rightarrow> color \<Rightarrow> string" where
  "colorize text c = c @ text @ endColor"

section \<open>formatArgs\<close>

text \<open>
  The loop of \<^verbatim>\<open>formatArgs\<close> runs \<open>i\<close> over the indices of \<^verbatim>\<open>values\<close> and reads
  \<^verbatim>\<open>names[i]\<close>; Go checks that index against the length of \<^verbatim>\<open>names\<close> and panics when
  it is out of range. \<open>sharp_v\<close> stands for \<^verbatim>\<open>fmt.Sprintf("%#v", _)\<close>.
\<close>

function formatArgs_loop ::
  "('v \<Rightarrow> string) \<Rightarrow> string list \<Rightarrow> 'v list \<Rightarrow> nat \<Rightarrow> 'v iface list \<Rightarrow> panic + 'v iface list"
where
  "formatArgs_loop sharp_v names values i formatted =
     (if i < length values then
        (let val = colorize (sharp_v (values ! i)) cyan in
         if length names \<le> i then Inl IndexOutOfRange
         else if names ! i = [] then
           formatArgs_loop sharp_v names values (Suc i) (formatted[i := GoString val])
         else
           (let name = colorize (names ! i) bold in
            formatArgs_loop sharp_v names values (Suc i)
              (formatted[i := GoString (name @ ''='' @ val)])))
      else Inr formatted)"
  by pat_completeness auto
termination
  by (relation "measure (\<lambda>(sharp_v, names, values, i, formatted). length values - i)") auto

declare formatArgs_loop.simps [simp del]

definition formatArgs :: "('v \<Rightarrow> string) \<Rightarrow> string list \<Rightarrow> 'v list \<Rightarrow> panic + 'v iface list" where
  "formatArgs sharp_v names values =
     formatArgs_loop sharp_v names values 0 (replicate (length values) GoNil)"

section \<open>Syntax trees\<close>

text \<open>
  The part of \<^verbatim>\<open>go/ast\<close> that \<^verbatim>\<open>qq.go\<close> looks at. An identifier carries its name and
  the object the parser resolved it to, a pointer that is nil when the parser found no
  declaration in the file. A call carries the lines of its parentheses: the file set maps a
  position to a line, and \<^verbatim>\<open>call.End()\<close> is the position just after the closing
  parenthesis, on the line of that parenthesis. Every node kind the code does not name is an
  \<open>OtherNode\<close> with its children in the order \<^verbatim>\<open>ast.Walk\<close> visits them.
\<close>

datatype ObjKind = Bad | Pkg | Con | Typ | Var | Fun | Lbl

record Object =
  Kind :: ObjKind
  Name :: string

datatype node =
    Ident string "Object option"
  | BasicLit string
  | BinaryExpr node string node
  | CallExpr (callFun: node) (Lparen: int) (Args: "node list") (Rparen: int)
  | IndexExpr node node
  | KeyValueExpr node node
  | ParenExpr node
  | SelectorExpr node node
  | SliceExpr node "node option" "node option" "node option"
  | TypeAssertExpr node "node option"
  | UnaryExpr string node
  | OtherNode "node list"

definition isCallExpr :: "node \<Rightarrow> bool" where
  "isCallExpr n = (case n of CallExpr f lp args rp \<Rightarrow> True | _ \<Rightarrow> False)"

definition present :: "'a option \<Rightarrow> 'a list" where
  "present x = (case x of None \<Rightarrow> [] | Some y \<Rightarrow> [y])"

fun children :: "node \<Rightarrow> node list" where
  "children (Ident name obj) = []"
| "children (BasicLit v) = []"
| "children (BinaryExpr x op y) = [x, y]"
| "children (CallExpr f lp args rp) = f # args"
| "children (IndexExpr x i) = [x, i]"
| "children (KeyValueExpr k v) = [k, v]"
| "children (ParenExpr x) = [x]"
| "children (SelectorExpr x sel) = [x, sel]"
| "children (SliceExpr x lo hi mx) = x # present lo @ present hi @ present mx"
| "children (TypeAssertExpr x t) = x # present t"
| "children (UnaryExpr op x) = [x]"
| "children (OtherNode ns) = ns"

text \<open>
  \<^verbatim>\<open>ast.Inspect(node, f)\<close> calls \<open>f\<close> on the node and, when \<open>f\<close> returns true, on the
  children in turn, depth first, followed by a call of \<open>f\<close> on nil. The function literal of
  \<^verbatim>\<open>argNames\<close> returns true on every path, so the walk never prunes, and on nil it does
  nothing; what it changes is the captured slice \<^verbatim>\<open>names\<close>, the state \<open>'s\<close> here. A
  panic inside \<open>f\<close> ends the walk.
\<close>

function Inspect :: "node \<Rightarrow> (node \<Rightarrow> 's \<Rightarrow> panic + 's) \<Rightarrow> 's \<Rightarrow> panic + 's" where
  "Inspect n f s =
     (case f n s of
        Inl p \<Rightarrow> Inl p
      | Inr s' \<Rightarrow>
          fold (\<lambda>c r. case r of Inl p \<Rightarrow> Inl p | Inr t \<Rightarrow> Inspect c f t) (children n) (Inr s'))"
  by pat_completeness auto
termination
proof (relation "measure (\<lambda>(n, f, s). size n)")
  show "wf (measure (\<lambda>(n, f :: node \<Rightarrow> 's \<Rightarrow> panic + 's, s :: 's). size n))"
    by simp
next
  fix f :: "node \<Rightarrow> 's \<Rightarrow> panic + 's" and n c :: node and s t :: 's
  have elem: "size x \<le> size_list size xs" if "x \<in> set xs" for x :: node and xs
    using that by (induction xs) auto
  assume "c \<in> set (children n)"
  then have "size c < size n"
    by (cases n) (auto simp: present_def split: option.splits dest!: elem)
  then show "((c, f, t), (n, f, s)) \<in> measure (\<lambda>(n, f, s). size n)"
    by simp
qed

declare Inspect.simps [simp del]

text \<open>The nodes of a tree in the order \<open>Inspect\<close> reaches them.\<close>

function preorder :: "node \<Rightarrow> node list" where
  "preorder n = n # concat (map preorder (children n))"
  by pat_completeness auto
termination
proof (relation "measure size")
  show "wf (measure (size :: node \<Rightarrow> nat))"
    by simp
next
  fix n c :: node
  have elem: "size x \<le> size_list size xs" if "x \<in> set xs" for x :: node and xs
    using that by (induction xs) auto
  assume "c \<in> set (children n)"
  then have "size c < size n"
    by (cases n) (auto simp: present_def split: option.splits dest!: elem)
  then show "(c, n) \<in> measure size"
    by simp
qed

declare preorder.simps [simp del]

section \<open>Finding the argument names\<close>

definition qqCall :: "node \<Rightarrow> bool" where
  "qqCall n =
     (case callFun n of
        SelectorExpr x sel \<Rightarrow> (case x of Ident name obj \<Rightarrow> name = ''qq'' | _ \<Rightarrow> False)
      | _ \<Rightarrow> False)"

text \<open>\<open>fprint\<close> is what \<^verbatim>\<open>printer.Fprint\<close> leaves in the buffer for a node.\<close>

definition exprToString :: "(node \<Rightarrow> string) \<Rightarrow> node \<Rightarrow> string" where
  "exprToString fprint arg = fprint arg"

definition argName :: "(node \<Rightarrow> string) \<Rightarrow> node \<Rightarrow> panic + string" where
  "argName fprint arg =
     (case arg of
        Ident nm ob \<Rightarrow>
          (case ob of
             None \<Rightarrow> Inl NilDereference
           | Some obj \<Rightarrow> if Kind obj = Var then Inr (Name obj) else Inr [])
      | BinaryExpr x op y \<Rightarrow> Inr (exprToString fprint arg)
      | CallExpr f lp args rp \<Rightarrow> Inr (exprToString fprint arg)
      | IndexExpr x i \<Rightarrow> Inr (exprToString fprint arg)
      | KeyValueExpr k v \<Rightarrow> Inr (exprToString fprint arg)
      | ParenExpr x \<Rightarrow> Inr (exprToString fprint arg)
      | SliceExpr x lo hi mx \<Rightarrow> Inr (exprToString fprint arg)
      | TypeAssertExpr x t \<Rightarrow> Inr (exprToString fprint arg)
      | UnaryExpr op x \<Rightarrow> Inr (exprToString fprint arg)
      | _ \<Rightarrow> Inr [])"

text \<open>The loop \<^verbatim>\<open>for _, arg := range call.Args { names = append(names, argName(arg)) }\<close>.\<close>

fun appendArgNames :: "(node \<Rightarrow> string) \<Rightarrow> node list \<Rightarrow> string list \<Rightarrow> panic + string list" where
  "appendArgNames fprint [] names = Inr names"
| "appendArgNames fprint (arg # args) names =
     (case argName fprint arg of
        Inl p \<Rightarrow> Inl p
      | Inr name \<Rightarrow> appendArgNames fprint args (names @ [name]))"

text \<open>The function literal that \<^verbatim>\<open>argNames\<close> hands to \<^verbatim>\<open>ast.Inspect\<close>.\<close>

definition argNames_visit :: "(node \<Rightarrow> string) \<Rightarrow> int \<Rightarrow> node \<Rightarrow> string list \<Rightarrow> panic + string list" where
  "argNames_visit fprint line n names =
     (case n of
        CallExpr f lp args rp \<Rightarrow>
          if rp \<noteq> line then Inr names
          else if \<not> qqCall n then Inr names
          else appendArgNames fprint args names
      | _ \<Rightarrow> Inr names)"

text \<open>
  \<^verbatim>\<open>argNames\<close> returns the pair \<^verbatim>\<open>(names, err)\<close>; \<open>parseFile\<close> is \<^verbatim>\<open>parser.ParseFile\<close>
  on the file's present contents.
\<close>

definition argNames ::
  "(string \<Rightarrow> error + node) \<Rightarrow> (node \<Rightarrow> string) \<Rightarrow> string \<Rightarrow> int \<Rightarrow> panic + (string list \<times> error option)"
where
  "argNames parseFile fprint filename line =
     (case parseFile filename of
        Inl err \<Rightarrow> Inr ([], Some err)
      | Inr f \<Rightarrow>
          (case Inspect f (argNames_visit fprint line) [] of
             Inl p \<Rightarrow> Inl p
           | Inr names \<Rightarrow> Inr (names, None)))"

section \<open>The prefix of a log line\<close>

text \<open>Decimal digits, for the verb \<^verbatim>\<open>%d\<close> on the line number.\<close>

fun digits :: "nat \<Rightarrow> string" where
  "digits n =
     (if n < 10 then [''0123456789'' ! n]
      else digits (n div 10) @ [''0123456789'' ! (n mod 10)])"

declare digits.simps [simp del]

definition itoa :: "int \<Rightarrow> string" where
  "itoa i = (if i < 0 then ''-'' @ digits (nat (- i)) else digits (nat i))"

text \<open>
  \<^verbatim>\<open>prefix\<close> asks the clock, \<^verbatim>\<open>filepath.Base\<close> and \<^verbatim>\<open>runtime.FuncForPC\<close>; their
  answers are the first three arguments.
\<close>

definition prefix :: "string \<Rightarrow> (string \<Rightarrow> string) \<Rightarrow> (nat \<Rightarrow> string) \<Rightarrow> nat \<Rightarrow> string \<Rightarrow> int \<Rightarrow> string" where
  "prefix clock base funcName pc file line =
     (let t = clock; shortFile = base file; callerName = funcName pc
      in ''['' @ t @ '' '' @ shortFile @ '':'' @ itoa line @ '' '' @ callerName @ ''] '')"

section \<open>The package state and its surroundings\<close>

text \<open>
  Where the logger writes, the flags of \<^verbatim>\<open>os.OpenFile\<close>, and the calls the package makes
  on the operating system, in the order it makes them.
\<close>

datatype writer = Stderr | File nat

datatype oflag = O_RDONLY | O_WRONLY | O_RDWR | O_APPEND | O_CREATE | O_EXCL | O_SYNC | O_TRUNC

datatype event =
    EvOpenFile string "oflag set" nat "error + nat"
  | EvWrite writer string
  | EvClose nat

text \<open>
  The package variables: \<^verbatim>\<open>LogFile\<close>, the logger (its prefix and its output) and the
  timer. Time is counted in nanoseconds, as \<^verbatim>\<open>time.Duration\<close> does, and the timer is held
  as the instant for which it is set. Whether a timer set for an instant still counts as
  running is for the Go runtime to say, not for the package. \<open>syscalls\<close> records what has
  been asked of the operating system so far.
\<close>

record globals =
  LogFile :: string
  logger_prefix :: string
  logger_out :: writer
  timer :: int
  syscalls :: "event list"

text \<open>
  What one invocation of \<^verbatim>\<open>Log\<close> learns from outside the package: the answer of
  \<^verbatim>\<open>runtime.Caller(1)\<close> (absent when \<^verbatim>\<open>ok\<close> is false), the parser, the printer, the
  two renderings of a value (\<^verbatim>\<open>%#v\<close>, and the \<^verbatim>\<open>%v\<close> of \<^verbatim>\<open>Println\<close>), the
  formatted clock, \<^verbatim>\<open>filepath.Base\<close>, the name of the function at a program counter,
  the instant of the call, what \<^verbatim>\<open>timer.Reset\<close> reports at that instant for a timer set
  for a given instant (true when it had been active), and \<^verbatim>\<open>os.OpenFile\<close>.
\<close>

record 'v env =
  Caller :: "(nat \<times> string \<times> int) option"
  ParseFile :: "string \<Rightarrow> error + node"
  Fprint :: "node \<Rightarrow> string"
  Sprintf_sharp_v :: "'v \<Rightarrow> string"
  Sprint_v :: "'v \<Rightarrow> string"
  Clock :: string
  Base :: "string \<Rightarrow> string"
  FuncName :: "nat \<Rightarrow> string"
  Now :: int
  TimerActive :: "int \<Rightarrow> bool"
  OpenFile :: "string \<Rightarrow> oflag set \<Rightarrow> nat \<Rightarrow> error + nat"

definition Second :: int where
  "Second = 1000000000"

text \<open>
  The two answers the Go runtime has given. Before Go 1.23 a timer fires when it is due,
  whether or not anyone receives from its channel, and \<^verbatim>\<open>Reset\<close> reports it active
  strictly before that instant. From Go 1.23 on a timer whose channel nobody receives from
  stays pending, and \<^verbatim>\<open>qq.go\<close> never receives from \<^verbatim>\<open>timer.C\<close>, so \<^verbatim>\<open>Reset\<close>
  reports it active at every call.
\<close>

definition fired_when_due :: "int \<Rightarrow> int \<Rightarrow> bool" where
  "fired_when_due now deadline = (now < deadline)"

definition pending_until_received :: "int \<Rightarrow> int \<Rightarrow> bool" where
  "pending_until_received now deadline = True"

text \<open>
  The initialisers of the package variables, run at instant \<open>t0\<close>: the logger writes to
  standard error with an empty prefix, and \<^verbatim>\<open>time.NewTimer(0)\<close> is set for that instant.
  \<open>path\<close> is \<^verbatim>\<open>filepath.Join(os.TempDir(), "qq.log")\<close>.
\<close>

definition init :: "string \<Rightarrow> int \<Rightarrow> globals" where
  "init path t0 =
     \<lparr>LogFile = path, logger_prefix = [], logger_out = Stderr, timer = t0 + 0, syscalls = []\<rparr>"

section \<open>Writing the line\<close>

text \<open>\<^verbatim>\<open>0600\<close> is octal; the flags joined with \<^verbatim>\<open>|\<close> are a set.\<close>

definition openLog :: "'v env \<Rightarrow> globals \<Rightarrow> (panic + nat) \<times> globals" where
  "openLog env g =
     (let r = OpenFile env (LogFile g) {O_CREATE, O_APPEND, O_WRONLY} 384;
          g' = g\<lparr>syscalls := syscalls g @ [EvOpenFile (LogFile g) {O_CREATE, O_APPEND, O_WRONLY} 384 r]\<rparr>
      in case r of
           Inl err \<Rightarrow> (Inl (OpenFailed err), g')
         | Inr fd \<Rightarrow> (Inr fd, g'))"

text \<open>
  \<^verbatim>\<open>logger.Println\<close> renders each operand as \<^verbatim>\<open>%v\<close> does (a string as itself), puts a
  space between operands and a newline at the end, and writes the prefix and that text to the
  logger's output in one write.
\<close>

definition render :: "('v \<Rightarrow> string) \<Rightarrow> 'v iface \<Rightarrow> string" where
  "render sprint_v x = (case x of GoNil \<Rightarrow> ''<nil>'' | GoString s \<Rightarrow> s | Dyn v \<Rightarrow> sprint_v v)"

fun join_space :: "string list \<Rightarrow> string" where
  "join_space [] = []"
| "join_space [x] = x"
| "join_space (x # y # ys) = x @ '' '' @ join_space (y # ys)"

definition Sprintln :: "('v \<Rightarrow> string) \<Rightarrow> 'v iface list \<Rightarrow> string" where
  "Sprintln sprint_v a = join_space (map (render sprint_v) a) @ [CHR 0x0A]"

definition Println :: "('v \<Rightarrow> string) \<Rightarrow> 'v iface list \<Rightarrow> globals \<Rightarrow> globals" where
  "Println sprint_v a g =
     g\<lparr>syscalls := syscalls g @ [EvWrite (logger_out g) (logger_prefix g @ Sprintln sprint_v a)]\<rparr>"

definition Close :: "nat \<Rightarrow> globals \<Rightarrow> globals" where
  "Close fd g = g\<lparr>syscalls := syscalls g @ [EvClose fd]\<rparr>"

section \<open>Log\<close>

text \<open>
  The first block of \<^verbatim>\<open>Log\<close>, up to \<^verbatim>\<open>logger.SetPrefix(prefix(pc, file, line))\<close>: it
  yields the operands to print and the state with the new prefix, or panics. When
  \<^verbatim>\<open>argNames\<close> returns an error the operands stay the caller's values.
\<close>

definition Log_args :: "'v env \<Rightarrow> globals \<Rightarrow> 'v list \<Rightarrow> panic + ('v iface list \<times> globals)" where
  "Log_args env g a =
     (case Caller env of
        None \<Rightarrow> Inr (map Dyn a, g)
      | Some (pc, file, line) \<Rightarrow>
          (case argNames (ParseFile env) (Fprint env) file line of
             Inl p \<Rightarrow> Inl p
           | Inr (names, err) \<Rightarrow>
               (case (if err = None then formatArgs (Sprintf_sharp_v env) names a
                      else Inr (map Dyn a)) of
                  Inl p \<Rightarrow> Inl p
                | Inr a' \<Rightarrow>
                    Inr (a', g\<lparr>logger_prefix :=
                                  prefix (Clock env) (Base env) (FuncName env) pc file line\<rparr>))))"

text \<open>
  The rest of \<^verbatim>\<open>Log\<close>: the timer is reset, the prefix gets a newline in front when
  \<^verbatim>\<open>Reset\<close> reports that the timer was not running, the file is opened, the logger is
  pointed at it, the line is printed, and the deferred \<^verbatim>\<open>f.Close()\<close> runs.
\<close>

definition Log_emit :: "'v env \<Rightarrow> globals \<Rightarrow> 'v iface list \<Rightarrow> panic option \<times> globals" where
  "Log_emit env g a =
     (let wasRunning = TimerActive env (timer g);
          g1 = g\<lparr>timer := Now env + 2 * Second\<rparr>;
          g2 = (if \<not> wasRunning then g1\<lparr>logger_prefix := [CHR 0x0A] @ logger_prefix g1\<rparr> else g1)
      in case openLog env g2 of
           (Inl p, g3) \<Rightarrow> (Some p, g3)
         | (Inr f, g3) \<Rightarrow>
             (let g4 = g3\<lparr>logger_out := File f\<rparr>;
                  g5 = Println (Sprint_v env) a g4
              in (None, Close f g5)))"

text \<open>
  \<^verbatim>\<open>Log\<close> returns the panic that ended it, if one did, and the package state it leaves.
\<close>

definition Log :: "'v env \<Rightarrow> globals \<Rightarrow> 'v list \<Rightarrow> panic option \<times> globals" where
  "Log env g a =
     (case Log_args env g a of
        Inl p \<Rightarrow> (Some p, g)
      | Inr (a', g') \<Rightarrow> Log_emit env g' a')"

section \<open>Notions used to state the properties\<close>

text \<open>
  What the specification says one formatted entry is: the coloured value alone for an
  empty name, otherwise the coloured name, an equals sign and the coloured value.
\<close>

definition entry :: "('v \<Rightarrow> string) \<Rightarrow> string \<Rightarrow> 'v \<Rightarrow> 'v iface" where
  "entry sharp_v name v =
     (if name = [] then GoString (colorize (sharp_v v) cyan)
      else GoString (colorize name bold @ ''='' @ colorize (sharp_v v) cyan))"

text \<open>
  What the specification says the matcher retains: a call expression that ends on the
  target line and is a call of this package.
\<close>

definition selected :: "int \<Rightarrow> node \<Rightarrow> bool" where
  "selected line n = (isCallExpr n \<and> Rparen n = line \<and> qqCall n)"

text \<open>
  The prefix the logger holds when the timer is consulted: the fresh one when the caller
  is known, otherwise the one an earlier invocation left.
\<close>

definition prefix_before_timer :: "'v env \<Rightarrow> globals \<Rightarrow> string" where
  "prefix_before_timer env g =
     (case Caller env of
        None \<Rightarrow> logger_prefix g
      | Some (pc, file, line) \<Rightarrow> prefix (Clock env) (Base env) (FuncName env) pc file line)"

text \<open>One step of a walk that stops at the first panic.\<close>

definition thread :: "('a \<Rightarrow> 's \<Rightarrow> panic + 's) \<Rightarrow> 'a \<Rightarrow> panic + 's \<Rightarrow> panic + 's" where
  "thread f c r = (case r of Inl p \<Rightarrow> Inl p | Inr t \<Rightarrow> f c t)"

section \<open>A small program to run the definitions on\<close>

text \<open>
  The tree of a file \<^verbatim>\<open>main.go\<close> whose function \<^verbatim>\<open>main\<close> declares \<^verbatim>\<open>a\<close>,
  \<^verbatim>\<open>b\<close> and \<^verbatim>\<open>xs\<close> and then reads
  \<^verbatim>\<open>
   5   qq.Log(a, b)
   6   dbg.Log(a)
   7   qq.Log(a); qq.Log(b)
   8   qq.Log(true)
   9   qq.Log(a +
  10       b, 5432)
  11   qq.Log(xs...)
  12   qq.Log(qq.Sprint(a), b)
  \<close>
  The parser resolves \<^verbatim>\<open>a\<close>, \<^verbatim>\<open>b\<close> and \<^verbatim>\<open>xs\<close> to variables of the file and leaves
  \<^verbatim>\<open>qq\<close>, \<^verbatim>\<open>dbg\<close>, \<^verbatim>\<open>Log\<close>, \<^verbatim>\<open>Sprint\<close> and \<^verbatim>\<open>true\<close>
  unresolved.
\<close>

definition var :: "string \<Rightarrow> node" where
  "var x = Ident x (Some \<lparr>Kind = Var, Name = x\<rparr>)"

definition sel_call :: "string \<Rightarrow> string \<Rightarrow> int \<Rightarrow> node list \<Rightarrow> int \<Rightarrow> node" where
  "sel_call pkg fn lp args rp = CallExpr (SelectorExpr (Ident pkg None) (Ident fn None)) lp args rp"

definition example_file :: node where
  "example_file =
     OtherNode
       [Ident ''main'' None,
        OtherNode
          [Ident ''main'' (Some \<lparr>Kind = Fun, Name = ''main''\<rparr>),
           OtherNode [],
           OtherNode
             [OtherNode [sel_call ''qq'' ''Log'' 5 [var ''a'', var ''b''] 5],
              OtherNode [sel_call ''dbg'' ''Log'' 6 [var ''a''] 6],
              OtherNode [sel_call ''qq'' ''Log'' 7 [var ''a''] 7],
              OtherNode [sel_call ''qq'' ''Log'' 7 [var ''b''] 7],
              OtherNode [sel_call ''qq'' ''Log'' 8 [Ident ''true'' None] 8],
              OtherNode
                [sel_call ''qq'' ''Log'' 9 [BinaryExpr (var ''a'') ''+'' (var ''b''), BasicLit ''5432''] 10],
              OtherNode [sel_call ''qq'' ''Log'' 11 [var ''xs''] 11],
              OtherNode
                [sel_call ''qq'' ''Log'' 12 [sel_call ''qq'' ''Sprint'' 12 [var ''a''] 12, var ''b''] 12]]]]"

definition example_fprint :: "node \<Rightarrow> string" where
  "example_fprint n =
     (case n of
        BinaryExpr x op y \<Rightarrow> ''a + b''
      | CallExpr f lp args rp \<Rightarrow> ''qq.Sprint(a)''
      | _ \<Rightarrow> [])"

definition example_parser :: "string \<Rightarrow> error + node" where
  "example_parser name = (if name = ''main.go'' then Inr example_file else Inl ''no such file'')"

text \<open>
  An invocation from line \<open>line\<close> of \<open>file\<close> at instant \<open>t\<close>, with integers as the
  run-time values, a runtime whose timers fire when due, and an operating system that opens
  the log as descriptor 3.
\<close>

definition example_env :: "string \<Rightarrow> int \<Rightarrow> int \<Rightarrow> int env" where
  "example_env file line t =
     \<lparr>Caller = Some (0, file, line), ParseFile = example_parser, Fprint = example_fprint,
      Sprintf_sharp_v = itoa, Sprint_v = itoa, Clock = ''12:00:00'', Base = (\<lambda>path. path),
      FuncName = (\<lambda>pc. ''main.main''), Now = t, TimerActive = fired_when_due t,
      OpenFile = (\<lambda>path flags perm. Inr 3)\<rparr>"

section \<open>The formatter\<close>

lemma formatArgs_loop_step:
  "i < length vs \<Longrightarrow> i < length names \<Longrightarrow>
   formatArgs_loop sv names vs i formatted =
   formatArgs_loop sv names vs (Suc i) (formatted[i := entry sv (names ! i) (vs ! i)])"
  by (subst formatArgs_loop.simps) (simp add: entry_def Let_def)

lemma formatArgs_loop_done:
  "length vs \<le> i \<Longrightarrow> formatArgs_loop sv names vs i formatted = Inr formatted"
  by (subst formatArgs_loop.simps) simp

lemma formatArgs_loop_oob:
  "i < length vs \<Longrightarrow> length names \<le> i \<Longrightarrow>
   formatArgs_loop sv names vs i formatted = Inl IndexOutOfRange"
  by (subst formatArgs_loop.simps) (simp add: Let_def)

text \<open>
  The invariant of the loop: the slots below \<open>i\<close> are written and stay, the slots from
  \<open>i\<close> on receive their entries.
\<close>

lemma formatArgs_loop_ok:
  "i \<le> length vs \<Longrightarrow> length formatted = length vs \<Longrightarrow> length vs \<le> length names \<Longrightarrow>
   formatArgs_loop sv names vs i formatted =
     Inr (take i formatted @ map (\<lambda>j. entry sv (names ! j) (vs ! j)) [i..<length vs])"
proof (induction "length vs - i" arbitrary: i formatted)
  case 0
  then show ?case by (simp add: formatArgs_loop_done)
next
  case (Suc k)
  let ?e = "entry sv (names ! i) (vs ! i)"
  from Suc.hyps(2) have lt: "i < length vs" by simp
  have "formatArgs_loop sv names vs i formatted =
        formatArgs_loop sv names vs (Suc i) (formatted[i := ?e])"
    using lt Suc.prems by (simp add: formatArgs_loop_step)
  also have "\<dots> = Inr (take (Suc i) (formatted[i := ?e]) @
                      map (\<lambda>j. entry sv (names ! j) (vs ! j)) [Suc i..<length vs])"
    using Suc.hyps(2) lt Suc.prems by (intro Suc.hyps(1)) simp_all
  also have "take (Suc i) (formatted[i := ?e]) = take i formatted @ [?e]"
    using lt Suc.prems by (simp add: take_Suc_conv_app_nth)
  finally show ?case
    using lt by (simp add: upt_conv_Cons)
qed

lemma formatArgs_loop_panic:
  "length names < length vs \<Longrightarrow> i \<le> length names \<Longrightarrow>
   formatArgs_loop sv names vs i formatted = Inl IndexOutOfRange"
proof (induction "length names - i" arbitrary: i formatted)
  case 0
  then show ?case by (simp add: formatArgs_loop_oob)
next
  case (Suc k)
  then have "formatArgs_loop sv names vs i formatted =
        formatArgs_loop sv names vs (Suc i) (formatted[i := entry sv (names ! i) (vs ! i)])"
    by (simp add: formatArgs_loop_step)
  also have "\<dots> = Inl IndexOutOfRange"
    using Suc.hyps(2) Suc.prems by (intro Suc.hyps(1)) simp_all
  finally show ?case .
qed

lemma formatArgs_enough_names:
  assumes "length vs \<le> length names"
  shows "formatArgs sv names vs = Inr (map2 (entry sv) (take (length vs) names) vs)"
proof -
  have "map (\<lambda>j. entry sv (names ! j) (vs ! j)) [0..<length vs] =
        map2 (entry sv) (take (length vs) names) vs"
    using assms by (intro nth_equalityI) simp_all
  with formatArgs_loop_ok[of 0 vs "replicate (length vs) GoNil" names sv] assms
  show ?thesis by (simp add: formatArgs_def)
qed

lemma formatArgs_too_few_names:
  "length names < length vs \<Longrightarrow> formatArgs sv names vs = Inl IndexOutOfRange"
  by (simp add: formatArgs_def formatArgs_loop_panic)

text \<open>
  C3. Given a list of name/value pairs, \<^verbatim>\<open>formatArgs\<close> returns without a panic a list
  with one entry per pair, in the order of the pairs: the entry of a pair with a non-empty
  name is the name in bold, an equals sign and the value in cyan; the entry of a pair with
  an empty name is the value in cyan alone.
\<close>

theorem formatArgs_one_entry_per_pair:
  "formatArgs sv (map fst ps) (map snd ps) =
     Inr (map (\<lambda>(name, v).
                 GoString (if name = [] then colorize (sv v) cyan
                           else colorize name bold @ ''='' @ colorize (sv v) cyan)) ps)"
proof -
  have "map2 (entry sv) (map fst ps) (map snd ps) =
        map (\<lambda>(name, v).
               GoString (if name = [] then colorize (sv v) cyan
                         else colorize name bold @ ''='' @ colorize (sv v) cyan)) ps"
    by (induction ps) (auto simp: entry_def)
  with formatArgs_enough_names[of "map snd ps" "map fst ps" sv] show ?thesis
    by simp
qed

theorem formatArgs_one_entry_per_pair_witness:
  "formatArgs itoa (map fst [(''ip'', 7), ([], 5432)]) (map snd [(''ip'', 7), ([], 5432)]) =
     Inr [GoString ([CHR 0x1B] @ ''[1mip'' @ [CHR 0x1B] @ ''[0m='' @
                    [CHR 0x1B] @ ''[36m7'' @ [CHR 0x1B] @ ''[0m''),
          GoString ([CHR 0x1B] @ ''[36m5432'' @ [CHR 0x1B] @ ''[0m'')]"
  using formatArgs_one_entry_per_pair[of itoa "[(''ip'', 7), ([], 5432)]"]
  by (simp add: itoa_def digits.simps colorize_def bold_def cyan_def endColor_def)

text \<open>
  C10. When there are more names than values, \<^verbatim>\<open>formatArgs\<close> returns one entry per
  value, each value paired with the name at its own index, and the names beyond the last
  value are not looked at. The loop is bounded by the values only: with fewer names than
  values the read of \<^verbatim>\<open>names[i]\<close> panics.
\<close>

theorem formatArgs_surplus_names_ignored:
  "(length vs < length names \<longrightarrow>
      formatArgs sv names vs = Inr (map (\<lambda>i. entry sv (names ! i) (vs ! i)) [0..<length vs])) \<and>
   (length names < length vs \<longrightarrow> formatArgs sv names vs = Inl IndexOutOfRange)"
proof (intro conjI impI)
  assume "length vs < length names"
  then have "map2 (entry sv) (take (length vs) names) vs =
             map (\<lambda>i. entry sv (names ! i) (vs ! i)) [0..<length vs]"
    by (intro nth_equalityI) simp_all
  with \<open>length vs < length names\<close> formatArgs_enough_names[of vs names sv]
  show "formatArgs sv names vs = Inr (map (\<lambda>i. entry sv (names ! i) (vs ! i)) [0..<length vs])"
    by simp
next
  assume "length names < length vs"
  then show "formatArgs sv names vs = Inl IndexOutOfRange"
    by (rule formatArgs_too_few_names)
qed

theorem formatArgs_surplus_names_ignored_witness:
  "length [7 :: int] < length [''a'', ''b''] \<and>
   formatArgs itoa [''a'', ''b''] [7] =
     Inr [GoString (colorize ''a'' bold @ ''='' @ colorize ''7'' cyan)] \<and>
   length [''a''] < length [7 :: int, 8] \<and>
   formatArgs itoa [''a''] [7, 8] = Inl IndexOutOfRange"
  using formatArgs_surplus_names_ignored[of "[7]" "[''a'', ''b'']" itoa]
        formatArgs_surplus_names_ignored[of "[7, 8]" "[''a'']" itoa]
  by (simp add: entry_def itoa_def digits.simps)

section \<open>The matcher\<close>

lemma thread_simps [simp]:
  "thread f c (Inl p) = Inl p"
  "thread f c (Inr t) = f c t"
  by (simp_all add: thread_def)

lemma fold_thread_Inl [simp]: "fold (thread f) xs (Inl p) = Inl p"
  by (induction xs) simp_all

lemma fold_concat_map:
  "fold g (concat (map h xs)) r = fold (\<lambda>x. fold g (h x)) xs r"
  by (induction xs arbitrary: r) simp_all

lemma Inspect_unfold:
  "Inspect n f s = fold (thread (\<lambda>c. Inspect c f)) (children n) (f n s)"
proof (cases "f n s")
  case (Inl p)
  then show ?thesis
    by (subst Inspect.simps) simp
next
  case (Inr s')
  have "(\<lambda>c r. case r of Inl p \<Rightarrow> Inl p | Inr t \<Rightarrow> Inspect c f t) = thread (\<lambda>c. Inspect c f)"
    by (intro ext) (simp add: thread_def)
  with Inr show ?thesis
    by (subst Inspect.simps) simp
qed

text \<open>\<open>Inspect\<close> applies the function to the nodes in the order of \<open>preorder\<close>.\<close>

lemma Inspect_preorder:
  "thread (\<lambda>c. Inspect c f) n r = fold (thread f) (preorder n) r"
proof (induction n arbitrary: r rule: preorder.induct)
  case (1 n)
  show ?case
  proof (cases r)
    case (Inl p)
    then show ?thesis by simp
  next
    case (Inr s)
    have "fold (thread (\<lambda>c. Inspect c f)) (children n) r' =
          fold (\<lambda>c. fold (thread f) (preorder c)) (children n) r'" for r'
      by (rule fold_cong) (auto simp: "1.IH")
    then have "Inspect n f s = fold (thread f) (concat (map preorder (children n))) (f n s)"
      by (simp add: Inspect_unfold fold_concat_map)
    with Inr show ?thesis
      by (subst preorder.simps) simp
  qed
qed

lemma appendArgNames_append:
  "appendArgNames fp (xs @ ys) names =
     (case appendArgNames fp xs names of
        Inl p \<Rightarrow> Inl p
      | Inr names' \<Rightarrow> appendArgNames fp ys names')"
  by (induction xs arbitrary: names) (simp_all split: sum.splits)

lemma visit_selected:
  "argNames_visit fp line n names =
     (if selected line n then appendArgNames fp (Args n) names else Inr names)"
  by (cases n) (simp_all add: argNames_visit_def selected_def isCallExpr_def)

lemma fold_visit:
  "fold (thread (argNames_visit fp line)) ns r =
     (case r of
        Inl p \<Rightarrow> Inl p
      | Inr names \<Rightarrow> appendArgNames fp (concat (map Args (filter (selected line) ns))) names)"
proof (induction ns arbitrary: r)
  case Nil
  show ?case by (simp split: sum.splits)
next
  case (Cons n ns)
  show ?case
  proof (cases r)
    case (Inl p)
    then show ?thesis by simp
  next
    case (Inr names)
    have "fold (thread (argNames_visit fp line)) (n # ns) r =
          fold (thread (argNames_visit fp line)) ns (argNames_visit fp line n names)"
      using Inr by simp
    also have "\<dots> = (case argNames_visit fp line n names of
                    Inl p \<Rightarrow> Inl p
                  | Inr names' \<Rightarrow>
                      appendArgNames fp (concat (map Args (filter (selected line) ns))) names')"
      by (rule Cons.IH)
    also have "\<dots> = appendArgNames fp (concat (map Args (filter (selected line) (n # ns)))) names"
      by (simp add: visit_selected appendArgNames_append)
    finally show ?thesis
      using Inr by simp
  qed
qed

lemma Inspect_visit:
  "Inspect f (argNames_visit fp line) names =
     appendArgNames fp (concat (map Args (filter (selected line) (preorder f)))) names"
  using Inspect_preorder[of "argNames_visit fp line" f "Inr names"]
  by (simp add: fold_visit)

lemma qqCall_shape:
  "qqCall (CallExpr fn lp args rp) = (\<exists>obj sel. fn = SelectorExpr (Ident ''qq'' obj) sel)"
  by (auto simp: qqCall_def split: node.splits)

lemma selected_shape:
  "selected line n =
     (\<exists>obj sel lp args. n = CallExpr (SelectorExpr (Ident ''qq'' obj) sel) lp args line)"
  by (cases n) (auto simp: selected_def isCallExpr_def qqCall_shape)

text \<open>
  C4. When the file parses, \<^verbatim>\<open>argNames\<close> takes the nodes of the tree in the order of
  the walk, keeps the calls of the package whose closing parenthesis is on the target line,
  whatever the line they open on, and runs the naming loop over the arguments of all of
  them put end to end, in that order, into one list of names.
\<close>

theorem argNames_calls_ending_on_line:
  "parseFile filename = Inr f \<Longrightarrow>
   argNames parseFile fprint filename line =
     (case appendArgNames fprint
             (concat (map Args
                (filter (\<lambda>n. isCallExpr n \<and> Rparen n = line \<and> qqCall n) (preorder f)))) [] of
        Inl p \<Rightarrow> Inl p
      | Inr names \<Rightarrow> Inr (names, None))"
  using Inspect_visit[of f fprint line "[]"]
  by (simp add: argNames_def selected_def[abs_def])

theorem argNames_calls_ending_on_line_witness:
  "example_parser ''main.go'' = Inr example_file \<and>
   argNames example_parser example_fprint ''main.go'' 7 = Inr ([''a'', ''b''], None) \<and>
   argNames example_parser example_fprint ''main.go'' 10 = Inr ([''a + b'', []], None) \<and>
   argNames example_parser example_fprint ''main.go'' 9 = Inr ([], None) \<and>
   argNames example_parser example_fprint ''main.go'' 12 =
     Inr ([''qq.Sprint(a)'', ''b'', ''a''], None)"
proof -
  have p: "example_parser ''main.go'' = Inr example_file"
    by (simp add: example_parser_def)
  show ?thesis
    using argNames_calls_ending_on_line[of example_parser "''main.go''" example_file example_fprint 7]
      argNames_calls_ending_on_line[of example_parser "''main.go''" example_file example_fprint 10]
      argNames_calls_ending_on_line[of example_parser "''main.go''" example_file example_fprint 9]
      argNames_calls_ending_on_line[of example_parser "''main.go''" example_file example_fprint 12]
    by (simp add: p example_file_def example_fprint_def var_def sel_call_def preorder.simps
        isCallExpr_def qqCall_def argName_def exprToString_def)
qed

text \<open>
  C5. Of the calls that end on the target line, the ones whose arguments are named are
  those whose callee is a selector expression on the identifier \<^verbatim>\<open>qq\<close>; a call of any
  other shape contributes nothing.
\<close>

theorem argNames_only_qq_calls:
  "parseFile filename = Inr f \<Longrightarrow>
   argNames parseFile fprint filename line =
     (case appendArgNames fprint
             (concat (map Args
                (filter (\<lambda>n. \<exists>obj sel lp args.
                           n = CallExpr (SelectorExpr (Ident ''qq'' obj) sel) lp args line)
                   (preorder f)))) [] of
        Inl p \<Rightarrow> Inl p
      | Inr names \<Rightarrow> Inr (names, None))"
  using Inspect_visit[of f fprint line "[]"]
  by (simp add: argNames_def selected_shape[abs_def])

theorem argNames_only_qq_calls_witness:
  "example_parser ''main.go'' = Inr example_file \<and>
   argNames example_parser example_fprint ''main.go'' 6 = Inr ([], None) \<and>
   argNames example_parser example_fprint ''main.go'' 5 = Inr ([''a'', ''b''], None)"
proof -
  have p: "example_parser ''main.go'' = Inr example_file"
    by (simp add: example_parser_def)
  show ?thesis
    using argNames_only_qq_calls[of example_parser "''main.go''" example_file example_fprint 6]
      argNames_only_qq_calls[of example_parser "''main.go''" example_file example_fprint 5]
    by (simp add: p example_file_def example_fprint_def var_def sel_call_def preorder.simps
        argName_def exprToString_def)
qed

section \<open>Properties of Log\<close>

lemma Sprintln_values:
  "Sprintln sv (map Dyn a) = join_space (map sv a) @ [CHR 0x0A]"
  by (simp add: Sprintln_def render_def comp_def)

lemma Log_emit_opened:
  "OpenFile env (LogFile g) {O_CREATE, O_APPEND, O_WRONLY} 384 = Inr fd \<Longrightarrow>
   Log_emit env g a =
     (None,
      g\<lparr>logger_prefix := (if TimerActive env (timer g) then logger_prefix g
                            else [CHR 0x0A] @ logger_prefix g),
        logger_out := File fd,
        timer := Now env + 2 * Second,
        syscalls := syscalls g @
          [EvOpenFile (LogFile g) {O_CREATE, O_APPEND, O_WRONLY} 384 (Inr fd),
           EvWrite (File fd)
             ((if TimerActive env (timer g) then logger_prefix g else [CHR 0x0A] @ logger_prefix g) @
              Sprintln (Sprint_v env) a),
           EvClose fd]\<rparr>)"
  by (simp add: Log_emit_def openLog_def Println_def Close_def Let_def)

lemma Log_emit_open_failed:
  "OpenFile env (LogFile g) {O_CREATE, O_APPEND, O_WRONLY} 384 = Inl e \<Longrightarrow>
   Log_emit env g a =
     (Some (OpenFailed e),
      g\<lparr>logger_prefix := (if TimerActive env (timer g) then logger_prefix g
                            else [CHR 0x0A] @ logger_prefix g),
        timer := Now env + 2 * Second,
        syscalls := syscalls g @
          [EvOpenFile (LogFile g) {O_CREATE, O_APPEND, O_WRONLY} 384 (Inl e)]\<rparr>)"
  by (simp add: Log_emit_def openLog_def Let_def)

lemma Log_args_parse_failure:
  "Caller env = Some (pc, file, line) \<Longrightarrow> ParseFile env file = Inl err \<Longrightarrow>
   Log_args env g a =
     Inr (map Dyn a,
          g\<lparr>logger_prefix := prefix (Clock env) (Base env) (FuncName env) pc file line\<rparr>)"
  by (simp add: Log_args_def argNames_def)

lemma Log_args_names:
  "Caller env = Some (pc, file, line) \<Longrightarrow>
   argNames (ParseFile env) (Fprint env) file line = Inr (names, None) \<Longrightarrow>
   Log_args env g a =
     (case formatArgs (Sprintf_sharp_v env) names a of
        Inl p \<Rightarrow> Inl p
      | Inr a' \<Rightarrow>
          Inr (a', g\<lparr>logger_prefix := prefix (Clock env) (Base env) (FuncName env) pc file line\<rparr>))"
  by (simp add: Log_args_def)

subsection \<open>The example, evaluated\<close>

lemma example_names:
  "argNames example_parser example_fprint ''main.go'' 5 = Inr ([''a'', ''b''], None)"
  "argNames example_parser example_fprint ''main.go'' 6 = Inr ([], None)"
  "argNames example_parser example_fprint ''main.go'' 7 = Inr ([''a'', ''b''], None)"
  "argNames example_parser example_fprint ''main.go'' 8 = Inl NilDereference"
  "argNames example_parser example_fprint ''main.go'' 11 = Inr ([''xs''], None)"
  by (simp_all add: argNames_def Inspect_visit example_parser_def example_file_def
      example_fprint_def var_def sel_call_def preorder.simps selected_def isCallExpr_def
      qqCall_def argName_def exprToString_def)

lemma example_env_simps [simp]:
  "Caller (example_env file line t) = Some (0, file, line)"
  "ParseFile (example_env file line t) = example_parser"
  "Fprint (example_env file line t) = example_fprint"
  "Sprintf_sharp_v (example_env file line t) = itoa"
  "Sprint_v (example_env file line t) = itoa"
  "Clock (example_env file line t) = ''12:00:00''"
  "Base (example_env file line t) = (\<lambda>path. path)"
  "FuncName (example_env file line t) = (\<lambda>pc. ''main.main'')"
  "Now (example_env file line t) = t"
  "TimerActive (example_env file line t) = (\<lambda>deadline. t < deadline)"
  "OpenFile (example_env file line t) = (\<lambda>path flags perm. Inr 3)"
  by (simp_all add: example_env_def fired_when_due_def fun_eq_iff)

lemma example_Log_named:
  "argNames example_parser example_fprint ''main.go'' line = Inr (names, None) \<Longrightarrow>
   length a \<le> length names \<Longrightarrow>
   Log (example_env ''main.go'' line t) g a =
     Log_emit (example_env ''main.go'' line t)
       (g\<lparr>logger_prefix := ''[12:00:00 main.go:'' @ itoa line @ '' main.main] ''\<rparr>)
       (map2 (entry itoa) (take (length a) names) a)"
  by (simp add: Log_def Log_args_names[of _ 0 "''main.go''" line names]
      formatArgs_enough_names prefix_def)

lemma example_Log_line5:
  "Log (example_env ''main.go'' 5 t) g [x, y] =
     (None,
      g\<lparr>logger_prefix :=
          (if t < timer g then [] else [CHR 0x0A]) @ ''[12:00:00 main.go:5 main.main] '',
        logger_out := File 3,
        timer := t + 2 * Second,
        syscalls := syscalls g @
          [EvOpenFile (LogFile g) {O_CREATE, O_APPEND, O_WRONLY} 384 (Inr 3),
           EvWrite (File 3)
             ((if t < timer g then [] else [CHR 0x0A]) @ ''[12:00:00 main.go:5 main.main] '' @
              colorize ''a'' bold @ ''='' @ colorize (itoa x) cyan @ '' '' @
              colorize ''b'' bold @ ''='' @ colorize (itoa y) cyan @ [CHR 0x0A]),
           EvClose 3]\<rparr>)"
  by (simp add: example_Log_named[of 5 "[''a'', ''b'']"] example_names Log_emit_opened entry_def
      Sprintln_def render_def itoa_def[of 5] digits.simps[of 5] colorize_def bold_def cyan_def
      endColor_def fired_when_due_def)

subsection \<open>Parse failure\<close>

text \<open>
  C7. When the parser rejects the caller's file, \<^verbatim>\<open>Log\<close> prints the caller's values
  themselves, none of them with a name: if the log file opens, \<^verbatim>\<open>Log\<close> returns normally
  and has written one line, the prefix followed by every value in order, separated by
  spaces; the parse error is never what \<^verbatim>\<open>Log\<close> ends with, only a failure to open the
  log file is.
\<close>

theorem Log_parse_failure:
  "Caller env = Some (pc, file, line) \<Longrightarrow> ParseFile env file = Inl err \<Longrightarrow>
   (\<forall>fd. OpenFile env (LogFile g) {O_CREATE, O_APPEND, O_WRONLY} 384 = Inr fd \<longrightarrow>
      Log env g a =
        (None,
         g\<lparr>logger_prefix :=
             (if TimerActive env (timer g) then [] else [CHR 0x0A]) @
             prefix (Clock env) (Base env) (FuncName env) pc file line,
           logger_out := File fd,
           timer := Now env + 2 * Second,
           syscalls := syscalls g @
             [EvOpenFile (LogFile g) {O_CREATE, O_APPEND, O_WRONLY} 384 (Inr fd),
              EvWrite (File fd)
                ((if TimerActive env (timer g) then [] else [CHR 0x0A]) @
                 prefix (Clock env) (Base env) (FuncName env) pc file line @
                 join_space (map (Sprint_v env) a) @ [CHR 0x0A]),
              EvClose fd]\<rparr>)) \<and>
   (\<forall>e. OpenFile env (LogFile g) {O_CREATE, O_APPEND, O_WRONLY} 384 = Inl e \<longrightarrow>
      fst (Log env g a) = Some (OpenFailed e))"
  by (simp add: Log_def Log_args_parse_failure Log_emit_opened Log_emit_open_failed Sprintln_values)

theorem Log_parse_failure_witness:
  "Caller (example_env ''gone.go'' 5 (5 * Second)) = Some (0, ''gone.go'', 5) \<and>
   ParseFile (example_env ''gone.go'' 5 (5 * Second)) ''gone.go'' = Inl ''no such file'' \<and>
   Log (example_env ''gone.go'' 5 (5 * Second)) (init ''/tmp/qq.log'' 0) [1, 2] =
     (None,
      \<lparr>LogFile = ''/tmp/qq.log'',
       logger_prefix = [CHR 0x0A] @ ''[12:00:00 gone.go:5 main.main] '',
       logger_out = File 3,
       timer = 7 * Second,
       syscalls =
         [EvOpenFile ''/tmp/qq.log'' {O_CREATE, O_APPEND, O_WRONLY} 384 (Inr 3),
          EvWrite (File 3) ([CHR 0x0A] @ ''[12:00:00 gone.go:5 main.main] 1 2'' @ [CHR 0x0A]),
          EvClose 3]\<rparr>) \<and>
   fst (Log ((example_env ''gone.go'' 5 (5 * Second))\<lparr>OpenFile := \<lambda>path flags perm. Inl ''permission denied''\<rparr>)
          (init ''/tmp/qq.log'' 0) [1, 2]) = Some (OpenFailed ''permission denied'')"
  using Log_parse_failure[of "example_env ''gone.go'' 5 (5 * Second)" 0 "''gone.go''" 5
      "''no such file''" "init ''/tmp/qq.log'' 0" "[1, 2]"]
    Log_parse_failure[of "(example_env ''gone.go'' 5 (5 * Second))\<lparr>OpenFile := \<lambda>path flags perm. Inl ''permission denied''\<rparr>"
      0 "''gone.go''" 5 "''no such file''" "init ''/tmp/qq.log'' 0" "[1, 2]"]
  by (simp add: example_parser_def init_def Second_def prefix_def itoa_def digits.simps)

subsection \<open>Names and values that do not match\<close>

text \<open>
  C1, as the code has it. \<^verbatim>\<open>Log\<close> never compares the number of names with the number of
  values. When \<^verbatim>\<open>argNames\<close> returns more names than there are values, the names are
  kept: no index leaves its slice, each value is printed with the name at its own index
  (as name=value when that name is not empty, bare otherwise), and the names beyond the last
  value are ignored.
\<close>

theorem Log_surplus_names:
  "Caller env = Some (pc, file, line) \<Longrightarrow>
   argNames (ParseFile env) (Fprint env) file line = Inr (names, None) \<Longrightarrow>
   length a < length names \<Longrightarrow>
   Log env g a =
     Log_emit env (g\<lparr>logger_prefix := prefix (Clock env) (Base env) (FuncName env) pc file line\<rparr>)
       (map (\<lambda>i. entry (Sprintf_sharp_v env) (names ! i) (a ! i)) [0..<length a])"
proof -
  assume c: "Caller env = Some (pc, file, line)"
    and n: "argNames (ParseFile env) (Fprint env) file line = Inr (names, None)"
    and l: "length a < length names"
  from l have "map2 (entry (Sprintf_sharp_v env)) (take (length a) names) a =
               map (\<lambda>i. entry (Sprintf_sharp_v env) (names ! i) (a ! i)) [0..<length a]"
    by (intro nth_equalityI) simp_all
  with l formatArgs_enough_names[of a names "Sprintf_sharp_v env"]
  show ?thesis
    by (simp add: Log_def Log_args_names[OF c n])
qed

theorem Log_surplus_names_witness:
  "Caller (example_env ''main.go'' 7 (5 * Second)) = Some (0, ''main.go'', 7) \<and>
   argNames (ParseFile (example_env ''main.go'' 7 (5 * Second)))
     (Fprint (example_env ''main.go'' 7 (5 * Second))) ''main.go'' 7 = Inr ([''a'', ''b''], None) \<and>
   length [2 :: int] < length [''a'', ''b''] \<and>
   Log (example_env ''main.go'' 7 (5 * Second)) (init ''/tmp/qq.log'' 0) [2] =
     Log_emit (example_env ''main.go'' 7 (5 * Second))
       ((init ''/tmp/qq.log'' 0)\<lparr>logger_prefix := ''[12:00:00 main.go:7 main.main] ''\<rparr>)
       [GoString (colorize ''a'' bold @ ''='' @ colorize ''2'' cyan)]"
  using Log_surplus_names[of "example_env ''main.go'' 7 (5 * Second)" 0 "''main.go''" 7
      "[''a'', ''b'']" "[2]" "init ''/tmp/qq.log'' 0"]
  by (simp add: example_names entry_def prefix_def itoa_def digits.simps)

text \<open>
  Line 7 of the example holds two calls, so two names are found for either of them. The
  second call passes one value, the value of \<^verbatim>\<open>b\<close>: the counts differ, and the line that
  is written carries the name \<^verbatim>\<open>a\<close>, not the bare value.
\<close>

theorem Log_count_mismatch_counterexample:
  "argNames example_parser example_fprint ''main.go'' 7 = Inr ([''a'', ''b''], None) \<and>
   length [''a'', ''b''] \<noteq> length [2 :: int] \<and>
   Log (example_env ''main.go'' 7 (5 * Second)) (init ''/tmp/qq.log'' 0) [2] =
     (None,
      \<lparr>LogFile = ''/tmp/qq.log'',
       logger_prefix = [CHR 0x0A] @ ''[12:00:00 main.go:7 main.main] '',
       logger_out = File 3,
       timer = 7 * Second,
       syscalls =
         [EvOpenFile ''/tmp/qq.log'' {O_CREATE, O_APPEND, O_WRONLY} 384 (Inr 3),
          EvWrite (File 3)
            ([CHR 0x0A] @ ''[12:00:00 main.go:7 main.main] '' @
             colorize ''a'' bold @ ''='' @ colorize ''2'' cyan @ [CHR 0x0A]),
          EvClose 3]\<rparr>) \<and>
   colorize ''a'' bold @ ''='' @ colorize ''2'' cyan \<noteq> colorize ''2'' cyan"
  by (simp add: example_names example_Log_named Log_emit_opened entry_def init_def Second_def
      Sprintln_def render_def colorize_def bold_def cyan_def endColor_def itoa_def
      digits.simps)

text \<open>
  What \<^verbatim>\<open>argName\<close> returns where it returns: the name of the object for an identifier
  resolved to a variable, the printed text for the eight kinds of expression its switch
  lists, and the empty string for a resolved identifier of another kind and for every
  other node.
\<close>

lemma argName_resolved:
  "argName fp (Ident nm (Some obj)) = Inr (if Kind obj = Var then Name obj else [])"
  by (simp add: argName_def)

lemma argName_expression:
  "argName fp (BinaryExpr x op y) = Inr (fp (BinaryExpr x op y))"
  "argName fp (CallExpr f lp args rp) = Inr (fp (CallExpr f lp args rp))"
  "argName fp (IndexExpr x i) = Inr (fp (IndexExpr x i))"
  "argName fp (KeyValueExpr k v) = Inr (fp (KeyValueExpr k v))"
  "argName fp (ParenExpr x) = Inr (fp (ParenExpr x))"
  "argName fp (SliceExpr x lo hi mx) = Inr (fp (SliceExpr x lo hi mx))"
  "argName fp (TypeAssertExpr x t) = Inr (fp (TypeAssertExpr x t))"
  "argName fp (UnaryExpr op x) = Inr (fp (UnaryExpr op x))"
  by (simp_all add: argName_def exprToString_def)

lemma argName_other:
  "argName fp (BasicLit v) = Inr []"
  "argName fp (SelectorExpr x sel) = Inr []"
  "argName fp (OtherNode ns) = Inr []"
  by (simp_all add: argName_def)

text \<open>With fewer names than values \<^verbatim>\<open>Log\<close> panics before it touches the package state.\<close>

lemma Log_too_few_names:
  "Caller env = Some (pc, file, line) \<Longrightarrow>
   argNames (ParseFile env) (Fprint env) file line = Inr (names, None) \<Longrightarrow>
   length names < length a \<Longrightarrow>
   Log env g a = (Some IndexOutOfRange, g)"
  by (simp add: Log_def Log_args_names formatArgs_too_few_names)

text \<open>
  C2. The example file parses, and the call on its line 6 goes through another name of
  the package, so no qualifying call ends there and \<^verbatim>\<open>argNames\<close> returns no names and
  no error. \<^verbatim>\<open>Log\<close> then hands the empty list of names to \<^verbatim>\<open>formatArgs\<close>, whose read
  of \<^verbatim>\<open>names[0]\<close> panics: nothing is written and the state is as before.
\<close>

theorem Log_no_matching_call_panics:
  "example_parser ''main.go'' = Inr example_file \<and>
   argNames example_parser example_fprint ''main.go'' 6 = Inr ([], None) \<and>
   Log (example_env ''main.go'' 6 (5 * Second)) (init ''/tmp/qq.log'' 0) [7] =
     (Some IndexOutOfRange, init ''/tmp/qq.log'' 0)"
  by (simp add: example_names example_parser_def Log_def
      Log_args_names[of _ 0 "''main.go''" 6 "[]"]
      formatArgs_too_few_names)

text \<open>
  C6. An identifier that the parser could not resolve, as \<^verbatim>\<open>true\<close> on line 8 of the
  example, has a nil object; \<^verbatim>\<open>argName\<close> reads \<^verbatim>\<open>a.Obj.Kind\<close> without a test, so it
  panics where its comment promises the empty string, and \<^verbatim>\<open>Log\<close> panics with it.
\<close>

theorem argName_unresolved_identifier_panics:
  "argName fprint (Ident ''true'' None) = Inl NilDereference \<and>
   Log (example_env ''main.go'' 8 (5 * Second)) (init ''/tmp/qq.log'' 0) [1] =
     (Some NilDereference, init ''/tmp/qq.log'' 0)"
  by (simp add: argName_def Log_def Log_args_def example_names)

text \<open>
  C9. On line 11 of the example one argument expression stands for two run-time values.
  The log file would open, yet \<^verbatim>\<open>Log\<close> ends in a panic before it asks for it: a failure
  to open the file is not the only way the call can abort.
\<close>

theorem Log_panics_though_file_opens:
  "OpenFile (example_env ''main.go'' 11 (5 * Second)) (LogFile (init ''/tmp/qq.log'' 0))
     {O_CREATE, O_APPEND, O_WRONLY} 384 = Inr 3 \<and>
   argNames example_parser example_fprint ''main.go'' 11 = Inr ([''xs''], None) \<and>
   Log (example_env ''main.go'' 11 (5 * Second)) (init ''/tmp/qq.log'' 0) [7, 8] =
     (Some IndexOutOfRange, init ''/tmp/qq.log'' 0)"
  by (simp add: example_names Log_def
      Log_args_names[of _ 0 "''main.go''" 11 "[''xs'']"]
      formatArgs_too_few_names)

subsection \<open>The grouping timer\<close>

lemma argName_panic: "argName fp arg = Inl p \<Longrightarrow> p = NilDereference"
  by (auto simp: argName_def split: node.splits option.splits if_splits)

lemma appendArgNames_panic: "appendArgNames fp args names = Inl p \<Longrightarrow> p = NilDereference"
  by (induction args arbitrary: names) (auto split: sum.splits dest: argName_panic)

lemma argNames_panic: "argNames pf fp filename line = Inl p \<Longrightarrow> p = NilDereference"
  by (auto simp: argNames_def Inspect_visit split: sum.splits dest: appendArgNames_panic)

lemma formatArgs_panic: "formatArgs sv names vs = Inl p \<Longrightarrow> p = IndexOutOfRange"
  by (cases "length vs \<le> length names")
     (simp_all add: formatArgs_enough_names formatArgs_too_few_names)

lemma Log_args_panic:
  "Log_args env g a = Inl p \<Longrightarrow> p = NilDereference \<or> p = IndexOutOfRange"
  by (auto simp: Log_args_def split: option.splits sum.splits if_splits
      dest!: argNames_panic formatArgs_panic)

lemma Log_args_state:
  "Log_args env g a = Inr (a', g') \<Longrightarrow> g' = g\<lparr>logger_prefix := prefix_before_timer env g\<rparr>"
  by (auto simp: Log_args_def prefix_before_timer_def split: option.splits sum.splits if_splits)

lemma Log_emit_state:
  assumes "Log_emit env g a = (r, g')"
  shows "timer g' = Now env + 2 * Second"
    and "logger_prefix g' = (if TimerActive env (timer g) then [] else [CHR 0x0A]) @ logger_prefix g"
    and "r = None \<Longrightarrow>
         \<exists>fd text. syscalls g' = syscalls g @
           [EvOpenFile (LogFile g) {O_CREATE, O_APPEND, O_WRONLY} 384 (Inr fd),
            EvWrite (File fd) (logger_prefix g' @ text), EvClose fd]"
proof -
  show "timer g' = Now env + 2 * Second"
    using assms
    by (cases "OpenFile env (LogFile g) {O_CREATE, O_APPEND, O_WRONLY} 384")
       (auto simp: Log_emit_open_failed Log_emit_opened)
  show "logger_prefix g' = (if TimerActive env (timer g) then [] else [CHR 0x0A]) @ logger_prefix g"
    using assms
    by (cases "OpenFile env (LogFile g) {O_CREATE, O_APPEND, O_WRONLY} 384")
       (auto simp: Log_emit_open_failed Log_emit_opened)
  show "\<exists>fd text. syscalls g' = syscalls g @
           [EvOpenFile (LogFile g) {O_CREATE, O_APPEND, O_WRONLY} 384 (Inr fd),
            EvWrite (File fd) (logger_prefix g' @ text), EvClose fd]" if "r = None"
    using assms that
    by (cases "OpenFile env (LogFile g) {O_CREATE, O_APPEND, O_WRONLY} 384")
       (auto simp: Log_emit_open_failed Log_emit_opened)
qed

lemma Log_reaches_timer:
  assumes "Log env g a = (r, g')" and "r \<noteq> Some NilDereference" and "r \<noteq> Some IndexOutOfRange"
  obtains a' where "Log_emit env (g\<lparr>logger_prefix := prefix_before_timer env g\<rparr>) a' = (r, g')"
proof (cases "Log_args env g a")
  case (Inl p)
  with assms Log_args_panic[OF Inl] show ?thesis
    by (auto simp: Log_def)
next
  case (Inr x)
  obtain a' g1 where x: "x = (a', g1)"
    by (cases x)
  with Inr Log_args_state[of env g a a' g1] assms(1) that[of a'] show ?thesis
    by (simp add: Log_def)
qed

text \<open>
  What holds of an invocation that gets as far as the timer: the timer is set for two
  seconds after the call, the prefix gets a newline in front exactly when
  \<^verbatim>\<open>Reset\<close> reports that the timer was not running, and the line written starts with
  that prefix.
\<close>

lemma Log_timer_when_reached:
  assumes "Log env g a = (r, g')" and "r \<noteq> Some NilDereference" and "r \<noteq> Some IndexOutOfRange"
  shows "timer g' = Now env + 2 * Second"
    and "logger_prefix g' =
           (if TimerActive env (timer g) then [] else [CHR 0x0A]) @ prefix_before_timer env g"
    and "r = None \<Longrightarrow>
         \<exists>fd text. syscalls g' = syscalls g @
           [EvOpenFile (LogFile g) {O_CREATE, O_APPEND, O_WRONLY} 384 (Inr fd),
            EvWrite (File fd) (logger_prefix g' @ text), EvClose fd]"
proof -
  from assms obtain a' where
    emit: "Log_emit env (g\<lparr>logger_prefix := prefix_before_timer env g\<rparr>) a' = (r, g')"
    by (rule Log_reaches_timer)
  show "timer g' = Now env + 2 * Second"
    using Log_emit_state(1)[OF emit] .
  show "logger_prefix g' =
          (if TimerActive env (timer g) then [] else [CHR 0x0A]) @ prefix_before_timer env g"
    using Log_emit_state(2)[OF emit] by simp
  show "\<exists>fd text. syscalls g' = syscalls g @
           [EvOpenFile (LogFile g) {O_CREATE, O_APPEND, O_WRONLY} 384 (Inr fd),
            EvWrite (File fd) (logger_prefix g' @ text), EvClose fd]" if "r = None"
    using Log_emit_state(3)[OF emit that] by simp
qed

text \<open>
  An invocation that panics while the names are worked out never gets to
  \<^verbatim>\<open>timer.Reset\<close>: it leaves the timer, and all the package state, as it found them.
\<close>

lemma Log_naming_panic_keeps_state:
  assumes "Log env g a = (Some p, g')" and "p = NilDereference \<or> p = IndexOutOfRange"
  shows "g' = g"
proof (cases "Log_args env g a")
  case (Inl q)
  with assms(1) show ?thesis
    by (simp add: Log_def)
next
  case (Inr x)
  obtain a' g1 where "x = (a', g1)"
    by (cases x)
  with Inr assms(1) have emit: "Log_emit env g1 a' = (Some p, g')"
    by (simp add: Log_def)
  show ?thesis
  proof (cases "OpenFile env (LogFile g1) {O_CREATE, O_APPEND, O_WRONLY} 384")
    case (Inl e)
    with emit assms(2) show ?thesis
      by (auto simp: Log_emit_open_failed)
  next
    case (Inr fd)
    with emit show ?thesis
      by (simp add: Log_emit_opened)
  qed
qed

lemma example_Log_line5_runtime:
  "Log ((example_env ''main.go'' 5 t)\<lparr>TimerActive := active\<rparr>) g [x, y] =
     (None,
      g\<lparr>logger_prefix :=
          (if active (timer g) then [] else [CHR 0x0A]) @ ''[12:00:00 main.go:5 main.main] '',
        logger_out := File 3,
        timer := t + 2 * Second,
        syscalls := syscalls g @
          [EvOpenFile (LogFile g) {O_CREATE, O_APPEND, O_WRONLY} 384 (Inr 3),
           EvWrite (File 3)
             ((if active (timer g) then [] else [CHR 0x0A]) @ ''[12:00:00 main.go:5 main.main] '' @
              colorize ''a'' bold @ ''='' @ colorize (itoa x) cyan @ '' '' @
              colorize ''b'' bold @ ''='' @ colorize (itoa y) cyan @ [CHR 0x0A]),
           EvClose 3]\<rparr>)"
  by (simp add: Log_def Log_args_names[of _ 0 "''main.go''" 5 "[''a'', ''b'']"] example_names
      formatArgs_enough_names prefix_def Log_emit_opened entry_def Sprintln_def render_def
      itoa_def[of 5] digits.simps[of 5] colorize_def bold_def cyan_def endColor_def)

text \<open>
  C8. The claim speaks of every invocation; the code resets the timer only in the
  invocations that get past the naming of the arguments. With a runtime whose timers fire
  when due: a call on line 5 at second 5 writes its line and sets the timer for second 7; a
  call on line 6 at second 6 panics in \<^verbatim>\<open>formatArgs\<close> and leaves the timer set for
  second 7, not for second 8; the call on line 5 at second 7, one second after the
  invocation before it, gets the newline in front of its prefix. With a runtime that keeps
  an unreceived timer pending, \<^verbatim>\<open>Reset\<close> reports the timer active even at the first
  invocation, which therefore gets no newline.
\<close>

theorem Log_panicking_invocation_skips_timer:
  "Log (example_env ''main.go'' 5 (5 * Second)) (init ''/tmp/qq.log'' 0) [1, 2] =
     (None, snd (Log (example_env ''main.go'' 5 (5 * Second)) (init ''/tmp/qq.log'' 0) [1, 2])) \<and>
   timer (snd (Log (example_env ''main.go'' 5 (5 * Second)) (init ''/tmp/qq.log'' 0) [1, 2])) =
     7 * Second \<and>
   Log (example_env ''main.go'' 6 (6 * Second))
       (snd (Log (example_env ''main.go'' 5 (5 * Second)) (init ''/tmp/qq.log'' 0) [1, 2])) [7] =
     (Some IndexOutOfRange,
      snd (Log (example_env ''main.go'' 5 (5 * Second)) (init ''/tmp/qq.log'' 0) [1, 2])) \<and>
   7 * Second - 6 * Second < 2 * Second \<and>
   logger_prefix
     (snd (Log (example_env ''main.go'' 5 (7 * Second))
             (snd (Log (example_env ''main.go'' 5 (5 * Second)) (init ''/tmp/qq.log'' 0) [1, 2]))
             [3, 4])) =
     [CHR 0x0A] @ ''[12:00:00 main.go:5 main.main] '' \<and>
   logger_prefix
     (snd (Log ((example_env ''main.go'' 5 (5 * Second))
                  \<lparr>TimerActive := pending_until_received (5 * Second)\<rparr>)
             (init ''/tmp/qq.log'' 0) [1, 2])) =
     ''[12:00:00 main.go:5 main.main] ''"
  by (simp add: example_Log_line5 example_Log_line5_runtime example_names init_def Second_def
      Log_too_few_names[of _ 0 "''main.go''" 6 "[]"] fired_when_due_def
      pending_until_received_def)

end
